theory Spec2Isabelle
  imports Main
begin

section \<open>Python values shared by the modules\<close>

text \<open>
  Exceptions of the Python code are values: every function that can raise returns
  \<open>exn + 'a\<close>, with \<open>Inl\<close> carrying the exception. A function that also changes state
  returns the result paired with the state reached at the moment it returns or raises.
\<close>

datatype exn =
    KeyError string
  | ValueError
  | AttributeError
  | MutagenError
  | CalledProcessError
  | RuntimeError
  | LockTimeout
  | KeyboardInterrupt
  | OtherError string

text \<open>
  A \<open>dict[str, str]\<close> is an association list in insertion order with distinct keys; the
  three dictionary operations the data layer uses are \<open>k in d\<close>, \<open>d.get(k, default)\<close>
  and \<open>d[k]\<close> (which raises \<open>KeyError\<close>), plus the item assignment \<open>d[k] = v\<close>.
\<close>

type_synonym csv_row = "(string \<times> string) list"

definition has_key :: "csv_row \<Rightarrow> string \<Rightarrow> bool" where
  "has_key row k = (map_of row k \<noteq> None)"

definition dict_get :: "csv_row \<Rightarrow> string \<Rightarrow> string \<Rightarrow> string" where
  "dict_get row k dflt = (case map_of row k of None \<Rightarrow> dflt | Some v \<Rightarrow> v)"

definition getitem :: "csv_row \<Rightarrow> string \<Rightarrow> exn + string" where
  "getitem row k = (case map_of row k of None \<Rightarrow> Inl (KeyError k) | Some v \<Rightarrow> Inr v)"

definition setitem :: "csv_row \<Rightarrow> string \<Rightarrow> string \<Rightarrow> csv_row" where
  "setitem row k v =
     (if has_key row k then map (\<lambda>(k', v'). if k' = k then (k', v) else (k', v')) row
      else row @ [(k, v)])"

section \<open>src/data/models.py\<close>

record AlbumMetadata =
  name :: string
  artist :: string

record TrackMetadata =
  key :: string
  track :: string
  artist :: string
  album :: AlbumMetadata
  genre :: string
  date :: "string option"

definition album_to_csv_row :: "AlbumMetadata \<Rightarrow> csv_row" where
  "album_to_csv_row a = [(''name'', name a), (''artist'', AlbumMetadata.artist a)]"

definition album_from_csv_row :: "csv_row \<Rightarrow> exn + AlbumMetadata" where
  "album_from_csv_row row =
     (case getitem row ''name'' of Inl e \<Rightarrow> Inl e | Inr n \<Rightarrow>
     (case getitem row ''artist'' of Inl e \<Rightarrow> Inl e | Inr ar \<Rightarrow>
      Inr \<lparr>name = n, artist = ar\<rparr>))"

text \<open>\<open>self.date or ""\<close>: \<open>None\<close> and the empty string both give the empty string.\<close>

definition date_or_empty :: "string option \<Rightarrow> string" where
  "date_or_empty d = (case d of None \<Rightarrow> '''' | Some s \<Rightarrow> (if s = '''' then '''' else s))"

text \<open>\<open>row["date"] or None\<close>: the empty string is falsy and becomes \<open>None\<close>.\<close>

definition str_or_None :: "string \<Rightarrow> string option" where
  "str_or_None s = (if s = '''' then None else Some s)"

definition to_csv_row :: "TrackMetadata \<Rightarrow> csv_row" where
  "to_csv_row t =
     [(''key'', key t),
      (''track'', track t),
      (''artist'', TrackMetadata.artist t),
      (''album_name'', name (album t)),
      (''album_artist'', AlbumMetadata.artist (album t)),
      (''genre'', genre t),
      (''date'', date_or_empty (date t))]"

definition from_csv_row :: "csv_row \<Rightarrow> exn + TrackMetadata" where
  "from_csv_row row =
     (case getitem row ''key'' of Inl e \<Rightarrow> Inl e | Inr k \<Rightarrow>
     (case getitem row ''track'' of Inl e \<Rightarrow> Inl e | Inr tr \<Rightarrow>
     (case getitem row ''artist'' of Inl e \<Rightarrow> Inl e | Inr ar \<Rightarrow>
     (case getitem row ''album_name'' of Inl e \<Rightarrow> Inl e | Inr an \<Rightarrow>
     (case getitem row ''album_artist'' of Inl e \<Rightarrow> Inl e | Inr aa \<Rightarrow>
     (case getitem row ''genre'' of Inl e \<Rightarrow> Inl e | Inr g \<Rightarrow>
     (case getitem row ''date'' of Inl e \<Rightarrow> Inl e | Inr d \<Rightarrow>
      Inr \<lparr>key = k, track = tr, artist = ar,
           album = \<lparr>name = an, artist = aa\<rparr>,
           genre = g, date = str_or_None d\<rparr>)))))))"

section \<open>src/data/__init__.py\<close>

definition TRACK_FIELDNAMES :: "string list" where
  "TRACK_FIELDNAMES =
     [''key'', ''track'', ''artist'', ''album_name'', ''album_artist'', ''genre'', ''date'']"

definition ALBUM_FIELDNAMES :: "string list" where
  "ALBUM_FIELDNAMES = [''name'', ''artist'']"

definition LEGACY_TRACK_FIELDNAMES :: "string list" where
  "LEGACY_TRACK_FIELDNAMES = [''key'', ''track'', ''artist'', ''album'', ''genre'', ''date'']"

text \<open>
  The two table files are addressed by the paths the configuration module returns; they
  are fixed for a run and distinct. A table file on disk is represented by the list of
  row dictionaries that \<open>csv.DictReader\<close> yields for it (the quoting of the delimited text
  is the work of the \<open>csv\<close> library and is not part of this development). The module-level
  \<open>CACHE\<close> dictionary holds lists of either record kind.
\<close>

definition metadata_file_path :: string where
  "metadata_file_path = ''metadata.csv''"

definition albums_file_path :: string where
  "albums_file_path = ''albums.csv''"

datatype cached = CachedTracks "TrackMetadata list" | CachedAlbums "AlbumMetadata list"

record store =
  tables :: "string \<rightharpoonup> csv_row list"
  CACHE :: "string \<rightharpoonup> cached"

definition read_csv_rows :: "string \<Rightarrow> store \<Rightarrow> csv_row list" where
  "read_csv_rows file_path st = (case tables st file_path of None \<Rightarrow> [] | Some rows \<Rightarrow> rows)"

definition is_legacy_track_format :: "csv_row list \<Rightarrow> bool" where
  "is_legacy_track_format rows =
     (case rows of [] \<Rightarrow> False
      | r # _ \<Rightarrow> has_key r ''album'' \<and> \<not> has_key r ''album_name'')"

definition migrate_legacy_track_row :: "csv_row \<Rightarrow> csv_row" where
  "migrate_legacy_track_row row =
     (let album_value = dict_get row ''album'' '''' in
      [(''key'', dict_get row ''key'' ''''),
       (''track'', dict_get row ''track'' ''''),
       (''artist'', dict_get row ''artist'' ''''),
       (''album_name'', album_value),
       (''album_artist'', dict_get row ''artist'' ''''),
       (''genre'', dict_get row ''genre'' ''''),
       (''date'', dict_get row ''date'' '''')])"

text \<open>
  A list comprehension whose body can raise: the first exception ends it.
\<close>

fun map_exn :: "('a \<Rightarrow> exn + 'b) \<Rightarrow> 'a list \<Rightarrow> exn + 'b list" where
  "map_exn f [] = Inr []"
| "map_exn f (x # xs) =
     (case f x of Inl e \<Rightarrow> Inl e
      | Inr y \<Rightarrow> (case map_exn f xs of Inl e \<Rightarrow> Inl e | Inr ys \<Rightarrow> Inr (y # ys)))"

text \<open>
  A cache hit returns whatever list was stored under the path. The two readers are only
  ever given their own file, so a hit on a list of the other record kind does not occur;
  the model gives it the exception the first attribute access on such a list would raise.
\<close>

definition read_track_metadata ::
  "string \<Rightarrow> bool \<Rightarrow> store \<Rightarrow> (exn + TrackMetadata list) \<times> store" where
  "read_track_metadata file_path use_cache st =
     (case (if use_cache then CACHE st file_path else None) of
        Some (CachedTracks ts) \<Rightarrow> (Inr ts, st)
      | Some (CachedAlbums _) \<Rightarrow> (Inl AttributeError, st)
      | None \<Rightarrow>
         (let rows = read_csv_rows file_path st;
              rows = (if is_legacy_track_format rows
                      then map migrate_legacy_track_row rows else rows)
          in case map_exn from_csv_row rows of
               Inl e \<Rightarrow> (Inl e, st)
             | Inr tracks \<Rightarrow>
                 (Inr tracks,
                  if use_cache
                  then st\<lparr>CACHE := (CACHE st)(file_path \<mapsto> CachedTracks tracks)\<rparr>
                  else st)))"

definition read_album_metadata ::
  "string \<Rightarrow> bool \<Rightarrow> store \<Rightarrow> (exn + AlbumMetadata list) \<times> store" where
  "read_album_metadata file_path use_cache st =
     (case (if use_cache then CACHE st file_path else None) of
        Some (CachedAlbums als) \<Rightarrow> (Inr als, st)
      | Some (CachedTracks _) \<Rightarrow> (Inl AttributeError, st)
      | None \<Rightarrow>
         (case map_exn album_from_csv_row (read_csv_rows file_path st) of
            Inl e \<Rightarrow> (Inl e, st)
          | Inr albums \<Rightarrow>
              (Inr albums,
               if use_cache
               then st\<lparr>CACHE := (CACHE st)(file_path \<mapsto> CachedAlbums albums)\<rparr>
               else st)))"

text \<open>
  \<open>csv.DictWriter.writerow\<close> raises \<open>ValueError\<close> for a row with a key outside the field
  names and writes the empty string for a missing one. The file is opened for writing
  (truncated) before the first row, so a failure leaves the header and the rows written
  so far; the cache entry is dropped only after the file is closed.
\<close>

definition row_fits :: "string list \<Rightarrow> csv_row \<Rightarrow> bool" where
  "row_fits fieldnames row = list_all (\<lambda>k. k \<in> set fieldnames) (map fst row)"

definition written_row :: "string list \<Rightarrow> csv_row \<Rightarrow> csv_row" where
  "written_row fieldnames row = map (\<lambda>k. (k, dict_get row k '''')) fieldnames"

definition write_csv ::
  "string \<Rightarrow> csv_row list \<Rightarrow> string list \<Rightarrow> store \<Rightarrow> (exn + unit) \<times> store" where
  "write_csv file_path rows fieldnames st =
     (if list_all (row_fits fieldnames) rows
      then (Inr (),
            st\<lparr>tables := (tables st)(file_path \<mapsto> map (written_row fieldnames) rows),
               CACHE := (CACHE st)(file_path := None)\<rparr>)
      else (Inl ValueError,
            st\<lparr>tables := (tables st)(file_path \<mapsto>
                 map (written_row fieldnames) (takeWhile (row_fits fieldnames) rows))\<rparr>))"

text \<open>
  The result of the two getters is a single record, the whole list, or \<open>None\<close>.
  \<open>if key:\<close> is Python truthiness: it holds for a non-empty string only.
\<close>

datatype 'a lookup = Single 'a | Everything "'a list" | NoMatch

definition truthy_key :: "string option \<Rightarrow> bool" where
  "truthy_key k = (case k of None \<Rightarrow> False | Some s \<Rightarrow> s \<noteq> '''')"

definition next_or_None :: "('a \<Rightarrow> bool) \<Rightarrow> 'a list \<Rightarrow> 'a lookup" where
  "next_or_None P xs = (case find P xs of None \<Rightarrow> NoMatch | Some x \<Rightarrow> Single x)"

definition get_file_metadata ::
  "string option \<Rightarrow> store \<Rightarrow> (exn + TrackMetadata lookup) \<times> store" where
  "get_file_metadata k st =
     (case read_track_metadata metadata_file_path False st of
        (Inl e, st') \<Rightarrow> (Inl e, st')
      | (Inr tracks, st') \<Rightarrow>
          (if truthy_key k
           then (Inr (next_or_None (\<lambda>t. Some (key t) = k) tracks), st')
           else (Inr (Everything tracks), st')))"


text \<open>
  The two update loops stop at the first row that matches (\<open>break\<close>) and report whether
  one was found.
\<close>

fun album_update_loop :: "AlbumMetadata \<Rightarrow> csv_row list \<Rightarrow> exn + (csv_row list \<times> bool)" where
  "album_update_loop a [] = Inr ([], False)"
| "album_update_loop a (row # rows) =
     (case getitem row ''name'' of Inl e \<Rightarrow> Inl e
      | Inr n \<Rightarrow>
          if n = name a
          then Inr (setitem row ''artist'' (AlbumMetadata.artist a) # rows, True)
          else (case album_update_loop a rows of Inl e \<Rightarrow> Inl e
                | Inr (rs, updated) \<Rightarrow> Inr (row # rs, updated)))"

fun track_replace_loop :: "TrackMetadata \<Rightarrow> csv_row list \<Rightarrow> exn + (csv_row list \<times> bool)" where
  "track_replace_loop t [] = Inr ([], False)"
| "track_replace_loop t (row # rows) =
     (case getitem row ''key'' of Inl e \<Rightarrow> Inl e
      | Inr k \<Rightarrow>
          if k = key t
          then Inr (to_csv_row t # rows, True)
          else (case track_replace_loop t rows of Inl e \<Rightarrow> Inl e
                | Inr (rs, replaced) \<Rightarrow> Inr (row # rs, replaced)))"

definition upsert_album_metadata :: "AlbumMetadata \<Rightarrow> store \<Rightarrow> (exn + unit) \<times> store" where
  "upsert_album_metadata a st =
     (case read_album_metadata albums_file_path False st of
        (Inl e, st') \<Rightarrow> (Inl e, st')
      | (Inr existing, st') \<Rightarrow>
          (case album_update_loop a (map album_to_csv_row existing) of
             Inl e \<Rightarrow> (Inl e, st')
           | Inr (rows, updated) \<Rightarrow>
               write_csv albums_file_path
                 (if updated then rows else rows @ [album_to_csv_row a])
                 ALBUM_FIELDNAMES st'))"

definition upsert_track_metadata :: "TrackMetadata \<Rightarrow> store \<Rightarrow> (exn + unit) \<times> store" where
  "upsert_track_metadata t st =
     (case read_track_metadata metadata_file_path False st of
        (Inl e, st') \<Rightarrow> (Inl e, st')
      | (Inr existing, st') \<Rightarrow>
          (case track_replace_loop t (map to_csv_row existing) of
             Inl e \<Rightarrow> (Inl e, st')
           | Inr (rows, replaced) \<Rightarrow>
               write_csv metadata_file_path
                 (if replaced then rows else rows @ [to_csv_row t])
                 TRACK_FIELDNAMES st'))"

definition clear_cache :: "store \<Rightarrow> store" where
  "clear_cache st = st\<lparr>CACHE := Map.empty\<rparr>"



subsection \<open>Auxiliary notions for the record store\<close>



text \<open>A record as it comes back from its own row: an empty-string date is read as absent.\<close>

definition reread :: "TrackMetadata \<Rightarrow> TrackMetadata" where
  "reread t = t\<lparr>date := (if date t = Some '''' then None else date t)\<rparr>"

text \<open>The record a legacy row is migrated to.\<close>

definition migrated_track :: "csv_row \<Rightarrow> TrackMetadata" where
  "migrated_track row =
     \<lparr>key = dict_get row ''key'' '''', track = dict_get row ''track'' '''',
      artist = dict_get row ''artist'' '''',
      album = \<lparr>name = dict_get row ''album'' '''', artist = dict_get row ''artist'' ''''\<rparr>,
      genre = dict_get row ''genre'' '''', date = str_or_None (dict_get row ''date'' '''')\<rparr>"

text \<open>
  A table in the legacy schema: \<open>csv.DictReader\<close> gives every row the columns of the
  header, here the legacy field names.
\<close>

definition legacy_schema :: "csv_row list \<Rightarrow> bool" where
  "legacy_schema rows = list_all (\<lambda>row. map fst row = LEGACY_TRACK_FIELDNAMES) rows"

subsection \<open>Sample data of the test suite\<close>

definition empty_store :: store where
  "empty_store = \<lparr>tables = Map.empty, CACHE = Map.empty\<rparr>"

definition sample_track :: TrackMetadata where
  "sample_track =
     \<lparr>key = ''test_file.mp3'', track = ''Test Track'', artist = ''Test Artist'',
      album = \<lparr>name = ''Test Album'', artist = ''Test Artist''\<rparr>,
      genre = ''Electronic'', date = Some ''2024''\<rparr>"


definition legacy_rows :: "csv_row list" where
  "legacy_rows =
     [[(''key'', ''test1.mp3''), (''track'', ''Track One''), (''artist'', ''Artist One''),
       (''album'', ''Album One''), (''genre'', ''House''), (''date'', ''2024'')],
      [(''key'', ''test2.mp3''), (''track'', ''Track Two''), (''artist'', ''Artist Two''),
       (''album'', ''Album Two''), (''genre'', ''Techno''), (''date'', '''')]]"

definition legacy_example :: store where
  "legacy_example = \<lparr>tables = [metadata_file_path \<mapsto> legacy_rows], CACHE = Map.empty\<rparr>"

section \<open>src/utils/file_transport.py\<close>

subsection \<open>String and path functions of the Python library\<close>

text \<open>
  \<open>str.lower\<close> on the ASCII letters; the recognised extensions are ASCII, and no other
  character is lowered to one of their letters.
\<close>

definition lower_char :: "char \<Rightarrow> char" where
  "lower_char c =
     (let n = (of_char c :: nat) in if 65 \<le> n \<and> n \<le> 90 then char_of (n + 32) else c)"

definition lower :: "string \<Rightarrow> string" where
  "lower s = map lower_char s"

fun startswith :: "string \<Rightarrow> string \<Rightarrow> bool" where
  "startswith s [] = True"
| "startswith [] (p # ps) = False"
| "startswith (c # cs) (p # ps) = (c = p \<and> startswith cs ps)"

definition endswith :: "string \<Rightarrow> string \<Rightarrow> bool" where
  "endswith s suffix = startswith (rev s) (rev suffix)"

text \<open>
  \<open>s.replace(old, new)\<close> replaces every non-overlapping occurrence of \<open>old\<close>, scanning
  from the left; an empty \<open>old\<close> matches before every character and at the end.
\<close>

function replace :: "string \<Rightarrow> string \<Rightarrow> string \<Rightarrow> string" where
  "replace s old new =
     (if old = [] then new @ concat (map (\<lambda>c. c # new) s)
      else if s = [] then []
      else if startswith s old then new @ replace (drop (length old) s) old new
      else hd s # replace (tl s) old new)"
  by pat_completeness auto
termination
  by (relation "measure (\<lambda>(s, old, new). length s)") auto

definition lstrip :: "string \<Rightarrow> char \<Rightarrow> string" where
  "lstrip s c = dropWhile (\<lambda>x. x = c) s"

definition os_sep :: char where
  "os_sep = CHR ''/''"

text \<open>\<open>os.path.join\<close> of two components on a POSIX host.\<close>

definition os_path_join :: "string \<Rightarrow> string \<Rightarrow> string" where
  "os_path_join a b =
     (if startswith b [os_sep] then b
      else if a = [] \<or> endswith a [os_sep] then a @ b
      else a @ [os_sep] @ b)"

text \<open>
  \<open>os.path.splitext\<close>: the extension starts at the last dot of the last path component,
  unless that component has nothing but dots before it.
\<close>

definition splitext :: "string \<Rightarrow> string \<times> string" where
  "splitext p =
     (let base = rev (takeWhile (\<lambda>c. c \<noteq> os_sep) (rev p));
          ext = rev (takeWhile (\<lambda>c. c \<noteq> CHR ''.'') (rev base));
          stem = take (length base - length ext - 1) base
      in if CHR ''.'' \<in> set base \<and> list_ex (\<lambda>c. c \<noteq> CHR ''.'') stem
         then (take (length p - length ext - 1) p, CHR ''.'' # ext)
         else (p, []))"

subsection \<open>The module\<close>

definition AUDIO_EXTENSIONS :: "string list" where
  "AUDIO_EXTENSIONS =
     [''.mp3'', ''.flac'', ''.m4a'', ''.mp4'', ''.opus'', ''.ogg'', ''.wav'', ''.aiff'', ''.aif'']"

definition is_audio_file :: "string \<Rightarrow> bool" where
  "is_audio_file path = (snd (splitext (lower path)) \<in> set AUDIO_EXTENSIONS)"

text \<open>
  A directory is the list of its entries in the order \<open>os.listdir\<close> returns them; an entry
  is a file or a directory (\<open>os.path.isdir\<close>).
\<close>

datatype node = File | Dir "(string \<times> node) list"

text \<open>\<open>initial_path or path\<close>: \<open>None\<close> and the empty string both give \<open>path\<close>.\<close>

definition initial_or :: "string option \<Rightarrow> string \<Rightarrow> string" where
  "initial_or initial_path path =
     (case initial_path of None \<Rightarrow> path | Some p \<Rightarrow> if p = [] then path else p)"

text \<open>
  \<open>LocalTransport.list_files\<close>, called on the directory at \<open>path\<close> whose entries are the
  first argument; the generator's yields are the elements of the result, in order.
\<close>

fun list_files :: "(string \<times> node) list \<Rightarrow> string \<Rightarrow> string option \<Rightarrow> string list" where
  "list_files [] path initial_path = []"
| "list_files ((entry, Dir children) # rest) path initial_path =
     list_files children (os_path_join path entry) (Some (initial_or initial_path path))
     @ list_files rest path initial_path"
| "list_files ((entry, File) # rest) path initial_path =
     (if is_audio_file entry
      then [lstrip (replace (os_path_join path entry) (initial_or initial_path path) []) os_sep]
      else [])
     @ list_files rest path initial_path"

text \<open>The other members of the local and the remote transport the pipeline relies on.\<close>

datatype TransportType = LOCAL | WEBDAV

definition cleanup_local_files_of :: "TransportType \<Rightarrow> bool" where
  "cleanup_local_files_of tt = (case tt of LOCAL \<Rightarrow> False | WEBDAV \<Rightarrow> True)"

definition local_load_file :: "string \<Rightarrow> string \<Rightarrow> string" where
  "local_load_file path initial_path = os_path_join initial_path path"

text \<open>The files below a directory, by their true paths relative to it.\<close>

fun relative_files :: "(string \<times> node) list \<Rightarrow> string \<Rightarrow> string list" where
  "relative_files [] prefix = []"
| "relative_files ((entry, Dir children) # rest) prefix =
     relative_files children (prefix @ entry @ [os_sep]) @ relative_files rest prefix"
| "relative_files ((entry, File) # rest) prefix =
     (prefix @ entry) # relative_files rest prefix"

definition music_tree :: "(string \<times> node) list" where
  "music_tree = [(''live'', Dir [(''music-mix.mp3'', File), (''notes.txt'', File)])]"

text \<open>The names of the audio files below a directory, in listing order.\<close>

fun audio_entries :: "(string \<times> node) list \<Rightarrow> string list" where
  "audio_entries [] = []"
| "audio_entries ((entry, Dir children) # rest) = audio_entries children @ audio_entries rest"
| "audio_entries ((entry, File) # rest) =
     (if is_audio_file entry then [entry] else []) @ audio_entries rest"

section \<open>src/utils/git_sync.py\<close>

text \<open>
  The configuration file is a dictionary; \<open>get_sync_repo\<close> is its \<open>sync_repo\<close> entry.
  Everything the module does to the file system, to the lock and through \<open>git\<close> is
  recorded, in order, as a list of actions. What the environment answers (whether the
  lock is obtained within its 30 seconds, which directories and files exist, the return
  codes and output of the \<open>git\<close> commands, the table files in the clone) is given by a
  record.
\<close>

type_synonym config = "string \<rightharpoonup> string"

datatype action =
    AcquireLock
  | ReleaseLock
  | Rmtree
  | GitClone string
  | CopyToRepo string
  | CopyFromRepo string
  | RunGit "string list"

record git_env =
  lock_free :: bool
  repo_dir_exists :: bool
  git_dir_exists :: bool
  clone_returncode :: int
  pull_returncode :: int
  status_returncode :: int
  status_stdout :: string
  add_returncode :: int
  commit_returncode :: int
  commit_stdout :: string
  push_returncode :: int
  repo_files :: "string \<rightharpoonup> csv_row list"

definition get_sync_repo :: "config \<Rightarrow> string option" where
  "get_sync_repo cfg = cfg ''sync_repo''"

text \<open>
  No shared repository is configured: the entry is missing or empty. In \<open>if not repo_url\<close>
  both \<open>None\<close> and the empty string are falsy.
\<close>

definition not_configured :: "string option \<Rightarrow> bool" where
  "not_configured repo_url = (case repo_url of None \<Rightarrow> True | Some u \<Rightarrow> u = [])"

text \<open>\<open>subprocess.run\<close> with \<open>check\<close>: a non-zero return code raises.\<close>

definition run_git ::
  "string list \<Rightarrow> bool \<Rightarrow> int \<Rightarrow> action list \<Rightarrow> (exn + unit) \<times> action list" where
  "run_git args check returncode acts =
     (if check \<and> returncode \<noteq> 0 then (Inl CalledProcessError, acts @ [RunGit args])
      else (Inr (), acts @ [RunGit args]))"

definition ensure_repo_cloned ::
  "string \<Rightarrow> git_env \<Rightarrow> action list \<Rightarrow> (exn + unit) \<times> action list" where
  "ensure_repo_cloned repo_url env acts =
     (if repo_dir_exists env \<and> git_dir_exists env then (Inr (), acts)
      else
        (let acts1 = (if repo_dir_exists env then acts @ [Rmtree] else acts);
             acts2 = acts1 @ [GitClone repo_url]
         in if clone_returncode env \<noteq> 0 then (Inl RuntimeError, acts2) else (Inr (), acts2)))"

definition sync_file_to_repo :: "string \<Rightarrow> store \<Rightarrow> action list \<Rightarrow> action list" where
  "sync_file_to_repo filename st acts =
     (if tables st filename \<noteq> None then acts @ [CopyToRepo filename] else acts)"

definition sync_file_from_repo ::
  "string \<Rightarrow> git_env \<Rightarrow> store \<times> action list \<Rightarrow> store \<times> action list" where
  "sync_file_from_repo filename env s =
     (case repo_files env filename of
        None \<Rightarrow> s
      | Some rows \<Rightarrow>
          ((fst s)\<lparr>tables := (tables (fst s))(filename \<mapsto> rows)\<rparr>, snd s @ [CopyFromRepo filename]))"

definition is_space :: "char \<Rightarrow> bool" where
  "is_space c = (c \<in> set [CHR '' '', CHR 0x09, CHR 0x0A, CHR 0x0B, CHR 0x0C, CHR 0x0D])"

text \<open>\<open>s.strip()\<close> is empty exactly when \<open>s\<close> is all white space.\<close>

definition strip_is_empty :: "string \<Rightarrow> bool" where
  "strip_is_empty s = list_all is_space s"

fun contains :: "string \<Rightarrow> string \<Rightarrow> bool" where
  "contains [] sub = (sub = [])"
| "contains (c # cs) sub = (startswith (c # cs) sub \<or> contains cs sub)"

text \<open>The body of \<open>pull_metadata\<close> under the lock.\<close>

definition pull_locked ::
  "string \<Rightarrow> git_env \<Rightarrow> store \<times> action list \<Rightarrow> (exn + bool) \<times> store \<times> action list" where
  "pull_locked repo_url env s =
     (case ensure_repo_cloned repo_url env (snd s) of
        (Inl e, acts) \<Rightarrow> (Inl e, fst s, acts)
      | (Inr _, acts) \<Rightarrow>
          (let acts1 = snd (run_git [''pull'', ''--rebase''] False (pull_returncode env) acts);
               s1 = sync_file_from_repo metadata_file_path env (fst s, acts1);
               s2 = sync_file_from_repo albums_file_path env s1
           in (Inr True, s2)))"

definition pull_metadata ::
  "config \<Rightarrow> git_env \<Rightarrow> store \<times> action list \<Rightarrow> (exn + bool) \<times> store \<times> action list" where
  "pull_metadata cfg env s =
     (case get_sync_repo cfg of
        None \<Rightarrow> (Inr False, s)
      | Some repo_url \<Rightarrow>
          if repo_url = [] then (Inr False, s)
          else if \<not> lock_free env then (Inl LockTimeout, s)
          else
            (case pull_locked repo_url env (fst s, snd s @ [AcquireLock]) of
               (r, st', acts) \<Rightarrow> (r, st', acts @ [ReleaseLock])))"

text \<open>The body of \<open>push_metadata\<close> under the lock.\<close>

definition push_locked ::
  "string \<Rightarrow> git_env \<Rightarrow> store \<Rightarrow> action list \<Rightarrow> (exn + bool) \<times> action list" where
  "push_locked repo_url env st acts =
     (case ensure_repo_cloned repo_url env acts of
        (Inl e, acts0) \<Rightarrow> (Inl e, acts0)
      | (Inr _, acts0) \<Rightarrow>
     (let acts1 = sync_file_to_repo metadata_file_path st acts0;
          acts2 = sync_file_to_repo albums_file_path st acts1
      in case run_git [''status'', ''--porcelain''] True (status_returncode env) acts2 of
           (Inl e, acts3) \<Rightarrow> (Inl e, acts3)
         | (Inr _, acts3) \<Rightarrow>
      if strip_is_empty (status_stdout env) then (Inr True, acts3)
      else
     (case run_git [''add'', ''metadata.csv'', ''albums.csv''] True (add_returncode env) acts3 of
        (Inl e, acts4) \<Rightarrow> (Inl e, acts4)
      | (Inr _, acts4) \<Rightarrow>
     (let acts5 = snd (run_git [''commit'', ''-m'', ''Update metadata from song-classifier'']
                         False (commit_returncode env) acts4)
      in if commit_returncode env \<noteq> 0 \<and> \<not> contains (commit_stdout env) ''nothing to commit''
         then (Inr False, acts5)
         else
           (let acts6 = snd (run_git [''push''] False (push_returncode env) acts5)
            in if push_returncode env \<noteq> 0 then (Inr False, acts6)
               else (Inr True, acts6))))))"

definition push_metadata ::
  "config \<Rightarrow> git_env \<Rightarrow> store \<Rightarrow> action list \<Rightarrow> (exn + bool) \<times> action list" where
  "push_metadata cfg env st acts =
     (case get_sync_repo cfg of
        None \<Rightarrow> (Inr False, acts)
      | Some repo_url \<Rightarrow>
          if repo_url = [] then (Inr False, acts)
          else if \<not> lock_free env then (Inl LockTimeout, acts)
          else
            (case push_locked repo_url env st (acts @ [AcquireLock]) of
               (r, acts') \<Rightarrow> (r, acts' @ [ReleaseLock])))"

section \<open>src/utils/constants.py\<close>


section \<open>src/utils/file_metadata.py\<close>

text \<open>
  Tag values are Python objects: a string, a byte string, a list of objects, \<open>None\<close>, or
  an object of some other type. Tags are a dictionary from tag names to such values;
  \<open>tags.get(k)\<close> is \<open>None\<close> for a missing name. Decoding a byte string as UTF-8 with
  \<open>errors="ignore"\<close> is a function of the Python library, a parameter here.
\<close>

datatype py_obj = PyStr string | PyBytes "nat list" | PyList "py_obj list" | PyNone | PyOther





























subsection \<open>A FLAC file with a comment of its own\<close>




section \<open>src/main.py\<close>

text \<open>
  The pipeline calls collaborators: the transport (\<open>load_file\<close>, \<open>save_file\<close>,
  \<open>cleanup_local_files\<close>), the tag codec (\<open>read_file_metadata\<close>, \<open>is_already_processed\<close>
  and the tag writer), the inference call and the confirmation form. Their answers are
  given by a record of functions; any of them may raise. Every call of a collaborator and
  every \<open>os.remove\<close> is recorded, in order, as an event. The state of a run is the record
  store, the events so far and the synchronisation actions so far.
\<close>

record collaborators =
  cleanup_local_files :: bool
  load_file :: "string \<Rightarrow> string \<Rightarrow> exn + string"
  read_file_metadata :: "string \<Rightarrow> exn + TrackMetadata option"
  is_already_processed :: "string \<Rightarrow> exn + bool"
  parse_metadata_with_ai :: "string \<Rightarrow> TrackMetadata option \<Rightarrow> exn + TrackMetadata"
  confirm_metadata :: "TrackMetadata \<Rightarrow> exn + TrackMetadata"
  write_tags :: "string \<Rightarrow> TrackMetadata \<Rightarrow> exn + unit"
  save_file :: "string \<Rightarrow> string \<Rightarrow> string \<Rightarrow> exn + unit"

datatype event =
    LoadFile string string
  | ReadFileMetadata string
  | IsAlreadyProcessed string
  | ParseMetadataWithAI string "TrackMetadata option"
  | ConfirmMetadata TrackMetadata
  | WriteFileMetadata string TrackMetadata
  | SaveFile string string string
  | OsRemove string

record state =
  db :: store
  events :: "event list"
  actions :: "action list"

definition log_event :: "event \<Rightarrow> state \<Rightarrow> state" where
  "log_event ev s = s\<lparr>events := events s @ [ev]\<rparr>"

text \<open>
  \<open>if file_transport.cleanup_local_files: try: os.remove(local_path) except OSError: pass\<close>
\<close>

definition remove_local_copy :: "collaborators \<Rightarrow> string \<Rightarrow> state \<Rightarrow> state" where
  "remove_local_copy c local_path s =
     (if cleanup_local_files c then log_event (OsRemove local_path) s else s)"

text \<open>
  The truth value of what \<open>get_file_metadata\<close> returns: a record is truthy, a list is
  truthy when it is not empty, \<open>None\<close> is falsy.
\<close>

definition truthy_lookup :: "'a lookup \<Rightarrow> bool" where
  "truthy_lookup r = (case r of Single _ \<Rightarrow> True | Everything xs \<Rightarrow> xs \<noteq> [] | NoMatch \<Rightarrow> False)"

text \<open>
  \<open>classify_filename\<close> in three parts: the condition of the first \<open>if\<close>, the steps from the
  confirmation form to the end, and the whole function.
\<close>

definition already_in_metadata :: "bool \<Rightarrow> string \<Rightarrow> state \<Rightarrow> (exn + bool) \<times> state" where
  "already_in_metadata skip_files_in_metadata filename s =
     (if skip_files_in_metadata
      then (case get_file_metadata (Some filename) (db s) of
              (Inl e, d) \<Rightarrow> (Inl e, s\<lparr>db := d\<rparr>)
            | (Inr r, d) \<Rightarrow> (Inr (truthy_lookup r), s\<lparr>db := d\<rparr>))
      else (Inr False, s))"

definition confirm_and_save ::
  "collaborators \<Rightarrow> string \<Rightarrow> string \<Rightarrow> string \<Rightarrow> TrackMetadata \<Rightarrow> state
     \<Rightarrow> (exn + TrackMetadata option) \<times> state" where
  "confirm_and_save c filename base_path local_path ai_metadata s =
     (let s1 = log_event (ConfirmMetadata ai_metadata) s in
      case confirm_metadata c ai_metadata of
        Inl e \<Rightarrow> (Inl e, s1)
      | Inr confirmed \<Rightarrow>
     (case upsert_album_metadata (album confirmed) (db s1) of
        (Inl e, d) \<Rightarrow> (Inl e, s1\<lparr>db := d\<rparr>)
      | (Inr _, d) \<Rightarrow>
     (case upsert_track_metadata confirmed d of
        (Inl e, d') \<Rightarrow> (Inl e, s1\<lparr>db := d'\<rparr>)
      | (Inr _, d') \<Rightarrow>
     (let s2 = log_event (WriteFileMetadata local_path confirmed) (s1\<lparr>db := d'\<rparr>) in
      case write_tags c local_path confirmed of
        Inl e \<Rightarrow> (Inl e, s2)
      | Inr _ \<Rightarrow>
     (let s3 = log_event (SaveFile local_path base_path filename) s2 in
      case save_file c local_path base_path filename of
        Inl e \<Rightarrow> (Inl e, s3)
      | Inr _ \<Rightarrow> (Inr (Some confirmed), remove_local_copy c local_path s3))))))"

definition classify_filename ::
  "collaborators \<Rightarrow> string \<Rightarrow> string \<Rightarrow> bool \<Rightarrow> bool \<Rightarrow> bool \<Rightarrow> state
     \<Rightarrow> (exn + TrackMetadata option) \<times> state" where
  "classify_filename c filename base_path skip_processed_files skip_files_in_metadata dry_run s =
     (case already_in_metadata skip_files_in_metadata filename s of
        (Inl e, s0) \<Rightarrow> (Inl e, s0)
      | (Inr True, s0) \<Rightarrow> (Inr None, s0)
      | (Inr False, s0) \<Rightarrow>
     (let s1 = log_event (LoadFile filename base_path) s0 in
      case load_file c filename base_path of
        Inl e \<Rightarrow> (Inl e, s1)
      | Inr local_path \<Rightarrow>
     (let s2 = log_event (ReadFileMetadata local_path) s1 in
      case read_file_metadata c local_path of
        Inl e \<Rightarrow> (Inl e, s2)
      | Inr existing \<Rightarrow>
     (case (if skip_processed_files
            then (is_already_processed c local_path, log_event (IsAlreadyProcessed local_path) s2)
            else (Inr False, s2)) of
        (Inl e, s3) \<Rightarrow> (Inl e, s3)
      | (Inr True, s3) \<Rightarrow> (Inr None, remove_local_copy c local_path s3)
      | (Inr False, s3) \<Rightarrow>
     (let s4 = log_event (ParseMetadataWithAI filename existing) s3 in
      case parse_metadata_with_ai c filename existing of
        Inl e \<Rightarrow> (Inl e, s4)
      | Inr ai_metadata \<Rightarrow>
          if dry_run then (Inr (Some ai_metadata), remove_local_copy c local_path s4)
          else confirm_and_save c filename base_path local_path ai_metadata s4)))))"

section \<open>src/cli.py\<close>

text \<open>
  The loop of \<open>process_files\<close> with its counter. An exception of \<open>classify_filename\<close> is
  not caught: it ends the loop, and the counter, a local variable, is lost with it.
\<close>

fun process_files_loop ::
  "collaborators \<Rightarrow> string list \<Rightarrow> string \<Rightarrow> bool \<Rightarrow> bool \<Rightarrow> bool \<Rightarrow> nat \<Rightarrow> state
     \<Rightarrow> (exn + nat) \<times> state" where
  "process_files_loop c [] base_path skip_processed skip_in_metadata dry_run processed s =
     (Inr processed, s)"
| "process_files_loop c (filename # rest) base_path skip_processed skip_in_metadata dry_run
       processed s =
     (case classify_filename c filename base_path skip_processed skip_in_metadata dry_run s of
        (Inl e, s') \<Rightarrow> (Inl e, s')
      | (Inr result, s') \<Rightarrow>
          process_files_loop c rest base_path skip_processed skip_in_metadata dry_run
            (if result \<noteq> None then processed + 1 else processed) s')"

definition process_files ::
  "collaborators \<Rightarrow> string list \<Rightarrow> string \<Rightarrow> bool \<Rightarrow> bool \<Rightarrow> bool \<Rightarrow> state
     \<Rightarrow> (exn + nat) \<times> state" where
  "process_files c files base_path skip_processed skip_in_metadata dry_run s =
     process_files_loop c files base_path skip_processed skip_in_metadata dry_run 0 s"

text \<open>
  The command line flags \<open>cmd_process\<close> reads, and how the command ends: it returns, it
  leaves through \<open>sys.exit\<close> with a code, or an exception escapes it.
\<close>

record args =
  args_dry_run :: bool
  no_sync :: bool
  no_skip_processed :: bool
  no_skip_in_metadata :: bool

datatype ending = Returned | SysExit int | Uncaught exn

text \<open>A call of \<open>push_metadata()\<close> whose result is dropped, made only under a condition.\<close>

definition push_if ::
  "bool \<Rightarrow> config \<Rightarrow> git_env \<Rightarrow> state \<Rightarrow> exn option \<times> state" where
  "push_if cond cfg env s =
     (if cond
      then (case push_metadata cfg env (db s) (actions s) of
              (Inl e, acts) \<Rightarrow> (Some e, s\<lparr>actions := acts\<rparr>)
            | (Inr _, acts) \<Rightarrow> (None, s\<lparr>actions := acts\<rparr>))
      else (None, s))"

definition pull_if ::
  "bool \<Rightarrow> config \<Rightarrow> git_env \<Rightarrow> state \<Rightarrow> exn option \<times> state" where
  "pull_if cond cfg env s =
     (if cond
      then (case pull_metadata cfg env (db s, actions s) of
              (Inl e, d, acts) \<Rightarrow> (Some e, s\<lparr>db := d, actions := acts\<rparr>)
            | (Inr _, d, acts) \<Rightarrow> (None, s\<lparr>db := d, actions := acts\<rparr>))
      else (None, s))"

text \<open>
  \<open>cmd_process\<close>. Whether the API key and the path are valid, and the list of files the
  transport finds under the path, are inputs. \<open>files_processed\<close> is set to 0 before the
  \<open>try\<close> and assigned the result of \<open>process_files\<close> only when that call returns.
\<close>

definition cmd_process ::
  "args \<Rightarrow> bool \<Rightarrow> bool \<Rightarrow> config \<Rightarrow> git_env \<Rightarrow> collaborators \<Rightarrow> string \<Rightarrow> string list
     \<Rightarrow> state \<Rightarrow> ending \<times> state" where
  "cmd_process a api_key_valid path_valid cfg env c path files s =
     (if \<not> args_dry_run a \<and> \<not> api_key_valid then (SysExit 1, s)
      else if \<not> path_valid then (SysExit 1, s)
      else
     (let skip_processed = \<not> no_skip_processed a;
          skip_in_metadata = \<not> no_skip_in_metadata a
      in case pull_if (\<not> no_sync a) cfg env s of
           (Some e, s1) \<Rightarrow> (Uncaught e, s1)
         | (None, s1) \<Rightarrow>
      if files = [] then (Returned, s1)
      else
     (let files_processed = (0::nat) in
      case process_files c files path skip_processed skip_in_metadata (args_dry_run a) s1 of
        (Inl KeyboardInterrupt, s2) \<Rightarrow>
          (case push_if (\<not> no_sync a \<and> files_processed > 0) cfg env s2 of
             (Some e, s3) \<Rightarrow> (Uncaught e, s3)
           | (None, s3) \<Rightarrow> (SysExit 130, s3))
      | (Inl e, s2) \<Rightarrow> (Uncaught e, s2)
      | (Inr files_processed, s2) \<Rightarrow>
          (case push_if (\<not> no_sync a \<and> \<not> args_dry_run a) cfg env s2 of
             (Some e, s3) \<Rightarrow> (Uncaught e, s3)
           | (None, s3) \<Rightarrow> (Returned, s3)))))"

subsection \<open>A run that is interrupted at its second file\<close>

definition interrupted_collaborators :: collaborators where
  "interrupted_collaborators =
     \<lparr>cleanup_local_files = False,
      load_file = (\<lambda>path initial_path. Inr (local_load_file path initial_path)),
      read_file_metadata = (\<lambda>local_path. Inr None),
      is_already_processed = (\<lambda>local_path. Inr False),
      parse_metadata_with_ai = (\<lambda>filename existing. Inr (sample_track\<lparr>key := filename\<rparr>)),
      confirm_metadata = (\<lambda>t. if key t = ''b.mp3'' then Inl KeyboardInterrupt else Inr t),
      write_tags = (\<lambda>local_path meta. Inr ()),
      save_file = (\<lambda>local_path remote_base_path relative_path. Inr ())\<rparr>"

definition configured :: config where
  "configured = [''sync_repo'' \<mapsto> ''git@example.org:me/metadata.git'']"

definition healthy_env :: git_env where
  "healthy_env =
     \<lparr>lock_free = True, repo_dir_exists = True, git_dir_exists = True,
      clone_returncode = 0, pull_returncode = 0,
      status_returncode = 0, status_stdout = '' M metadata.csv'',
      add_returncode = 0, commit_returncode = 0, commit_stdout = ''1 file changed'',
      push_returncode = 0, repo_files = Map.empty\<rparr>"

definition default_args :: args where
  "default_args =
     \<lparr>args_dry_run = False, no_sync = False, no_skip_processed = False,
      no_skip_in_metadata = False\<rparr>"

definition initial_state :: state where
  "initial_state = \<lparr>db = empty_store, events = [], actions = []\<rparr>"

subsection \<open>A store that already knows the sample track\<close>

definition known_state :: state where
  "known_state =
     \<lparr>db = \<lparr>tables = [metadata_file_path \<mapsto> [to_csv_row sample_track]], CACHE = Map.empty\<rparr>,
      events = [], actions = []\<rparr>"

section \<open>Properties of the record store\<close>

subsection \<open>Rows and records\<close>

lemma getitem_to_csv_row:
  "getitem (to_csv_row t) ''key'' = Inr (key t)"
  "getitem (to_csv_row t) ''track'' = Inr (track t)"
  "getitem (to_csv_row t) ''artist'' = Inr (TrackMetadata.artist t)"
  "getitem (to_csv_row t) ''album_name'' = Inr (name (album t))"
  "getitem (to_csv_row t) ''album_artist'' = Inr (AlbumMetadata.artist (album t))"
  "getitem (to_csv_row t) ''genre'' = Inr (genre t)"
  "getitem (to_csv_row t) ''date'' = Inr (date_or_empty (date t))"
  by (simp_all add: getitem_def to_csv_row_def)

lemma str_or_None_date_or_empty:
  "str_or_None (date_or_empty d) = (if d = Some '''' then None else d)"
  by (cases d) (simp_all add: str_or_None_def date_or_empty_def)

lemma from_to_csv_row: "from_csv_row (to_csv_row t) = Inr (reread t)"
  by (simp add: from_csv_row_def getitem_to_csv_row str_or_None_date_or_empty reread_def)

lemma album_from_to_csv_row: "album_from_csv_row (album_to_csv_row a) = Inr a"
  by (simp add: album_from_csv_row_def album_to_csv_row_def getitem_def)

lemma from_csv_row_date: "from_csv_row row = Inr t \<Longrightarrow> date t \<noteq> Some ''''"
  by (auto simp: from_csv_row_def str_or_None_def split: sum.splits if_splits)

lemma key_reread [simp]: "key (reread x) = key x"
  by (simp add: reread_def)

text \<open>
  Claim C2. Deserialising the serialised row gives the record back: for every album
  record, and for every track record whose date is absent or a non-empty string. An absent
  date is written as the empty cell and read back as absent, and no row is ever read as a
  record with the empty string as its date.
\<close>

theorem csv_row_roundtrip:
  "album_from_csv_row (album_to_csv_row a) = Inr a
   \<and> (date t \<noteq> Some '''' \<longrightarrow> from_csv_row (to_csv_row t) = Inr t)
   \<and> getitem (to_csv_row (t\<lparr>date := None\<rparr>)) ''date'' = Inr ''''
   \<and> from_csv_row (to_csv_row (t\<lparr>date := None\<rparr>)) = Inr (t\<lparr>date := None\<rparr>)
   \<and> from_csv_row row \<noteq> Inr (t'\<lparr>date := Some ''''\<rparr>)"
proof -
  have "from_csv_row row \<noteq> Inr (t'\<lparr>date := Some ''''\<rparr>)"
    using from_csv_row_date [of row "t'\<lparr>date := Some ''''\<rparr>"] by auto
  then show ?thesis
    by (simp add: album_from_to_csv_row from_to_csv_row reread_def getitem_to_csv_row
        date_or_empty_def)
qed

theorem csv_row_roundtrip_witness:
  "date sample_track \<noteq> Some ''''
   \<and> album_from_csv_row (album_to_csv_row (album sample_track)) = Inr (album sample_track)
   \<and> from_csv_row (to_csv_row sample_track) = Inr sample_track
   \<and> getitem (to_csv_row (sample_track\<lparr>date := None\<rparr>)) ''date'' = Inr ''''
   \<and> from_csv_row (to_csv_row (sample_track\<lparr>date := None\<rparr>)) = Inr (sample_track\<lparr>date := None\<rparr>)"
proof -
  have d: "date sample_track \<noteq> Some ''''"
    by (simp add: sample_track_def)
  show ?thesis
    using d csv_row_roundtrip [of "album sample_track" sample_track "[]" sample_track]
    by simp
qed

subsection \<open>Reading\<close>

lemma map_exn_all_ok:
  "(\<And>x. x \<in> set xs \<Longrightarrow> f (h x) = Inr (g x)) \<Longrightarrow> map_exn f (map h xs) = Inr (map g xs)"
  by (induction xs) simp_all

lemma read_track_no_cache: "snd (read_track_metadata p False st) = st"
  by (simp add: read_track_metadata_def Let_def split: sum.splits)

lemma not_legacy_to_csv_rows: "\<not> is_legacy_track_format (map to_csv_row xs)"
  by (cases xs) (simp_all add: is_legacy_track_format_def has_key_def to_csv_row_def)

lemma read_written_tracks:
  assumes "tables st p = Some (map to_csv_row xs)"
  shows "read_track_metadata p False st = (Inr (map reread xs), st)"
proof -
  have "map_exn from_csv_row (map to_csv_row xs) = Inr (map reread xs)"
    by (rule map_exn_all_ok) (simp add: from_to_csv_row)
  then show ?thesis using assms
    by (simp add: read_track_metadata_def read_csv_rows_def not_legacy_to_csv_rows)
qed

lemma read_empty_store:
  "read_track_metadata metadata_file_path False empty_store = (Inr [], empty_store)"
  by (simp add: read_track_metadata_def read_csv_rows_def empty_store_def
      is_legacy_track_format_def)


subsection \<open>Legacy tables\<close>

lemma from_migrated:
  "from_csv_row (migrate_legacy_track_row row) = Inr (migrated_track row)"
  by (simp add: from_csv_row_def migrate_legacy_track_row_def getitem_def migrated_track_def)

lemma legacy_row_keys:
  assumes "map fst row = LEGACY_TRACK_FIELDNAMES"
  shows "has_key row ''album''" and "\<not> has_key row ''album_name''"
    and "map_of row ''album'' = Some (dict_get row ''album'' '''')"
    and "map_of row ''artist'' = Some (dict_get row ''artist'' '''')"
proof -
  have keys: "fst ` set row = set LEGACY_TRACK_FIELDNAMES"
    using assms by (metis image_set)
  have al: "''album'' \<in> fst ` set row" and ar: "''artist'' \<in> fst ` set row"
    and an: "''album_name'' \<notin> fst ` set row"
    unfolding keys by (simp_all add: LEGACY_TRACK_FIELDNAMES_def)
  show "has_key row ''album''" using al by (simp add: has_key_def map_of_eq_None_iff)
  show "\<not> has_key row ''album_name''" using an by (simp add: has_key_def map_of_eq_None_iff)
  show "map_of row ''album'' = Some (dict_get row ''album'' '''')"
    using al by (auto simp: dict_get_def map_of_eq_None_iff split: option.splits)
  show "map_of row ''artist'' = Some (dict_get row ''artist'' '''')"
    using ar by (auto simp: dict_get_def map_of_eq_None_iff split: option.splits)
qed

lemma legacy_schema_is_legacy:
  "legacy_schema rows \<Longrightarrow> rows \<noteq> [] \<Longrightarrow> is_legacy_track_format rows"
  by (cases rows) (simp_all add: legacy_schema_def is_legacy_track_format_def legacy_row_keys)

text \<open>
  Claim C3. Reading an asset table in the legacy schema succeeds, returns one record per
  legacy row, in order, and each record has the row's album value as its album name and
  the row's track artist as its album artist.
\<close>

theorem legacy_read_migrates:
  assumes fl: "tables st file_path = Some rows" and legacy: "legacy_schema rows"
  shows "\<exists>tracks. read_track_metadata file_path False st = (Inr tracks, st)
           \<and> length tracks = length rows
           \<and> list_all2 (\<lambda>row t. map_of row ''album'' = Some (name (album t))
                  \<and> map_of row ''artist'' = Some (TrackMetadata.artist t)
                  \<and> AlbumMetadata.artist (album t) = TrackMetadata.artist t) rows tracks"
proof (cases "rows = []")
  case True
  then show ?thesis using fl
    by (simp add: read_track_metadata_def read_csv_rows_def is_legacy_track_format_def)
next
  case False
  have conv: "map_exn from_csv_row (map migrate_legacy_track_row rows)
                = Inr (map migrated_track rows)"
    by (rule map_exn_all_ok) (rule from_migrated)
  have rd: "read_track_metadata file_path False st = (Inr (map migrated_track rows), st)"
    using fl legacy_schema_is_legacy [OF legacy False]
    by (simp add: read_track_metadata_def read_csv_rows_def conv)
  have rows_ok: "\<forall>row\<in>set rows. map fst row = LEGACY_TRACK_FIELDNAMES"
    using legacy by (simp add: legacy_schema_def list_all_iff)
  have "list_all2 (\<lambda>row t. map_of row ''album'' = Some (name (album t))
                  \<and> map_of row ''artist'' = Some (TrackMetadata.artist t)
                  \<and> AlbumMetadata.artist (album t) = TrackMetadata.artist t)
          rows (map migrated_track rows)"
    unfolding list_all2_map2
    by (rule list_all2_same [THEN iffD2])
       (use rows_ok in \<open>auto simp: migrated_track_def legacy_row_keys\<close>)
  then show ?thesis using rd by simp
qed

theorem legacy_read_migrates_witness:
  "tables legacy_example metadata_file_path = Some legacy_rows \<and> legacy_schema legacy_rows
   \<and> (\<exists>tracks. read_track_metadata metadata_file_path False legacy_example
                   = (Inr tracks, legacy_example)
           \<and> length tracks = length legacy_rows
           \<and> list_all2 (\<lambda>row t. map_of row ''album'' = Some (name (album t))
                  \<and> map_of row ''artist'' = Some (TrackMetadata.artist t)
                  \<and> AlbumMetadata.artist (album t) = TrackMetadata.artist t) legacy_rows tracks)"
proof -
  have f: "tables legacy_example metadata_file_path = Some legacy_rows"
    by (simp add: legacy_example_def)
  have l: "legacy_schema legacy_rows"
    by (simp add: legacy_rows_def legacy_schema_def LEGACY_TRACK_FIELDNAMES_def)
  show ?thesis
    using f l legacy_read_migrates [OF f l] by (intro conjI)
qed

subsection \<open>Upserting\<close>
















section \<open>Properties of the local transport\<close>

text \<open>
  Claim C8. The local listing is to yield each audio file once, by its path relative to
  the listed root. The relative path is computed with \<open>str.replace\<close>, which removes every
  occurrence of the root path in the full path, not only the leading one. Listing the
  root \<open>/music\<close>, whose directory \<open>live\<close> holds the file \<open>music-mix.mp3\<close>, yields
  \<open>live-mix.mp3\<close>, while the file's relative path is \<open>live/music-mix.mp3\<close>.
\<close>

theorem list_files_strips_inner_occurrence:
  "list_files music_tree ''/music'' None = [''live-mix.mp3'']
   \<and> filter is_audio_file (relative_files music_tree []) = [''live/music-mix.mp3'']"
  by code_simp

text \<open>
  The filter itself is as intended: the listing has one element for each file whose name
  has a recognised extension, and none for any other file.
\<close>

lemma list_files_one_per_audio_file:
  "length (list_files entries path initial_path) = length (audio_entries entries)"
  by (induction entries path initial_path rule: list_files.induct) simp_all

lemma is_audio_file_examples:
  "is_audio_file ''test.MP3''" "is_audio_file ''album.flac''" "is_audio_file ''a.Aiff''"
  "\<not> is_audio_file ''readme.txt''" "\<not> is_audio_file ''test.mp''" "\<not> is_audio_file ''.mp3''"
  by code_simp+

section \<open>Properties of the synchronisation\<close>

text \<open>
  Claim C9. With no shared repository configured (the \<open>sync_repo\<close> entry missing or empty)
  \<open>push_metadata\<close> returns \<open>False\<close> and performs no action: the lock is not taken, nothing
  is cloned or copied, and no \<open>git\<close> command runs.
\<close>

theorem push_not_configured:
  assumes "not_configured (get_sync_repo cfg)"
  shows "push_metadata cfg env st acts = (Inr False, acts)"
  using assms by (cases "get_sync_repo cfg") (auto simp: push_metadata_def not_configured_def)

theorem push_not_configured_witness:
  "not_configured (get_sync_repo Map.empty)
   \<and> push_metadata Map.empty healthy_env empty_store [] = (Inr False, [])"
proof -
  have n: "not_configured (get_sync_repo Map.empty)"
    by (simp add: not_configured_def get_sync_repo_def)
  show ?thesis using n push_not_configured [OF n, of healthy_env empty_store "[]"] by simp
qed

text \<open>With a repository configured and a changed table, the same call does all of it.\<close>

lemma push_configured_acts:
  "push_metadata configured healthy_env (snd (upsert_track_metadata sample_track empty_store)) [] =
     (Inr True,
      [AcquireLock, CopyToRepo metadata_file_path, RunGit [''status'', ''--porcelain''],
       RunGit [''add'', ''metadata.csv'', ''albums.csv''],
       RunGit [''commit'', ''-m'', ''Update metadata from song-classifier''],
       RunGit [''push''], ReleaseLock])"
  by code_simp

section \<open>Properties of the tag writer\<close>
















section \<open>Properties of the pipeline\<close>

lemma get_file_metadata_db: "snd (get_file_metadata k d) = d"
  using read_track_no_cache [of metadata_file_path d]
  by (cases "read_track_metadata metadata_file_path False d")
     (auto simp: get_file_metadata_def split: sum.splits)

lemma find_key_Some:
  "list_ex (\<lambda>t. key t = k) ts \<Longrightarrow> \<exists>x. find (\<lambda>t. key t = k) ts = Some x"
  by (induction ts) auto

lemma state_db_same [simp]: "s\<lparr>db := db s\<rparr> = s"
  by simp

text \<open>
  Claim C4. When the skip-if-in-store check is enabled and the asset table holds a record
  whose key is the asset's file name, \<open>classify_filename\<close> returns \<open>None\<close> and leaves the
  whole state as it was: the store is not changed, and no collaborator is called (no
  fetch, no tag read or write, no inference, no confirmation, no publish, no removal).
  Its only access to the store is the lookup that finds the record.
\<close>

theorem skip_known_asset:
  assumes readable: "fst (read_track_metadata metadata_file_path False (db s)) = Inr tracks"
    and known: "list_ex (\<lambda>t. key t = filename) tracks"
  shows "classify_filename c filename base_path skip_processed_files True dry_run s = (Inr None, s)"
proof -
  have rd: "read_track_metadata metadata_file_path False (db s) = (Inr tracks, db s)"
    using readable read_track_no_cache [of metadata_file_path "db s"] by (metis prod.collapse)
  have ne: "tracks \<noteq> []" using known by auto
  obtain x where x: "find (\<lambda>t. key t = filename) tracks = Some x"
    using find_key_Some [OF known] by blast
  have "\<exists>r. get_file_metadata (Some filename) (db s) = (Inr r, db s) \<and> truthy_lookup r"
    by (cases "filename = []")
       (simp_all add: get_file_metadata_def rd truthy_key_def truthy_lookup_def next_or_None_def x ne)
  then have "already_in_metadata True filename s = (Inr True, s)"
    by (auto simp: already_in_metadata_def)
  then show ?thesis by (simp add: classify_filename_def)
qed

theorem skip_known_asset_witness:
  "fst (read_track_metadata metadata_file_path False (db known_state)) = Inr [sample_track]
   \<and> list_ex (\<lambda>t. key t = ''test_file.mp3'') [sample_track]
   \<and> classify_filename interrupted_collaborators ''test_file.mp3'' ''/music'' True True False
        known_state = (Inr None, known_state)"
proof -
  have r: "fst (read_track_metadata metadata_file_path False (db known_state)) = Inr [sample_track]"
    using read_written_tracks [of "db known_state" metadata_file_path "[sample_track]"]
    by (simp add: known_state_def reread_def sample_track_def)
  have k: "list_ex (\<lambda>t. key t = ''test_file.mp3'') [sample_track]"
    by (simp add: sample_track_def)
  show ?thesis
    using r k skip_known_asset [OF r k, of interrupted_collaborators "''/music''" True False]
    by (intro conjI)
qed

lemma already_in_metadata_state: "snd (already_in_metadata b filename s) = s"
  using get_file_metadata_db [of "Some filename" "db s"]
  by (cases "get_file_metadata (Some filename) (db s)")
     (auto simp: already_in_metadata_def split: sum.splits)

text \<open>
  Claim C5. An asset that reaches the dry-run check (it is not skipped at the start, its
  local copy is fetched, its tags are read, it is not skipped as processed, and the
  inference returns a record) is, with dry-run enabled, answered with the inferred record.
  The store and the synchronisation actions are unchanged; the inference is called, the
  confirmation form is not, and nothing is written or published.
\<close>

theorem dry_run_only_infers:
  assumes not_known: "fst (already_in_metadata skip_files_in_metadata filename s) = Inr False"
    and loaded: "load_file c filename base_path = Inr local_path"
    and tags_read: "read_file_metadata c local_path = Inr existing"
    and not_processed: "skip_processed_files \<longrightarrow> is_already_processed c local_path = Inr False"
    and inferred: "parse_metadata_with_ai c filename existing = Inr ai_metadata"
  shows "\<exists>s' new. classify_filename c filename base_path skip_processed_files
                    skip_files_in_metadata True s = (Inr (Some ai_metadata), s')
           \<and> db s' = db s \<and> actions s' = actions s
           \<and> events s' = events s @ new
           \<and> new = [LoadFile filename base_path, ReadFileMetadata local_path]
                   @ (if skip_processed_files then [IsAlreadyProcessed local_path] else [])
                   @ [ParseMetadataWithAI filename existing]
                   @ (if cleanup_local_files c then [OsRemove local_path] else [])
           \<and> ParseMetadataWithAI filename existing \<in> set new
           \<and> (\<forall>t. ConfirmMetadata t \<notin> set new)"
proof -
  have a: "already_in_metadata skip_files_in_metadata filename s = (Inr False, s)"
    using not_known already_in_metadata_state [of skip_files_in_metadata filename s]
    by (metis prod.collapse)
  show ?thesis
    using not_processed
    by (simp add: classify_filename_def a loaded tags_read inferred Let_def log_event_def
        remove_local_copy_def)
qed

theorem dry_run_only_infers_witness:
  "fst (already_in_metadata True ''a.mp3'' initial_state) = Inr False
   \<and> load_file interrupted_collaborators ''a.mp3'' ''/music'' = Inr ''/music/a.mp3''
   \<and> read_file_metadata interrupted_collaborators ''/music/a.mp3'' = Inr None
   \<and> is_already_processed interrupted_collaborators ''/music/a.mp3'' = Inr False
   \<and> parse_metadata_with_ai interrupted_collaborators ''a.mp3'' None
       = Inr (sample_track\<lparr>key := ''a.mp3''\<rparr>)
   \<and> (\<exists>s'. classify_filename interrupted_collaborators ''a.mp3'' ''/music'' True True True
              initial_state = (Inr (Some (sample_track\<lparr>key := ''a.mp3''\<rparr>)), s')
           \<and> db s' = db initial_state
           \<and> events s' = [LoadFile ''a.mp3'' ''/music'', ReadFileMetadata ''/music/a.mp3'',
                          IsAlreadyProcessed ''/music/a.mp3'',
                          ParseMetadataWithAI ''a.mp3'' None])"
proof -
  have h1: "fst (already_in_metadata True ''a.mp3'' initial_state) = Inr False"
    by (simp add: already_in_metadata_def initial_state_def get_file_metadata_def
        read_empty_store truthy_key_def next_or_None_def truthy_lookup_def)
  have h2: "load_file interrupted_collaborators ''a.mp3'' ''/music'' = Inr ''/music/a.mp3''"
    by (simp add: interrupted_collaborators_def local_load_file_def os_path_join_def
        endswith_def os_sep_def)
  have h3: "read_file_metadata interrupted_collaborators ''/music/a.mp3'' = Inr None"
    by (simp add: interrupted_collaborators_def)
  have h4: "is_already_processed interrupted_collaborators ''/music/a.mp3'' = Inr False"
    by (simp add: interrupted_collaborators_def)
  then have h4': "True \<longrightarrow> is_already_processed interrupted_collaborators ''/music/a.mp3'' = Inr False"
    by simp
  have h5: "parse_metadata_with_ai interrupted_collaborators ''a.mp3'' None
       = Inr (sample_track\<lparr>key := ''a.mp3''\<rparr>)"
    by (simp add: interrupted_collaborators_def)
  have c: "\<not> cleanup_local_files interrupted_collaborators"
    by (simp add: interrupted_collaborators_def)
  have e: "events initial_state = []"
    by (simp add: initial_state_def)
  from dry_run_only_infers [OF h1 h2 h3 h4' h5] c e
  have "\<exists>s'. classify_filename interrupted_collaborators ''a.mp3'' ''/music'' True True True
              initial_state = (Inr (Some (sample_track\<lparr>key := ''a.mp3''\<rparr>)), s')
           \<and> db s' = db initial_state
           \<and> events s' = [LoadFile ''a.mp3'' ''/music'', ReadFileMetadata ''/music/a.mp3'',
                          IsAlreadyProcessed ''/music/a.mp3'',
                          ParseMetadataWithAI ''a.mp3'' None]"
    by auto
  with h1 h2 h3 h4 h5 show ?thesis by (intro conjI)
qed


section \<open>Properties of the batch command\<close>


text \<open>The same command on the first file alone finishes and pushes.\<close>

lemma clean_finish_pushes:
  "(let r = cmd_process default_args True True configured healthy_env interrupted_collaborators
              ''/music'' [''a.mp3''] initial_state
    in fst r = Returned
       \<and> actions (snd r) =
           [AcquireLock, RunGit [''pull'', ''--rebase''], ReleaseLock,
            AcquireLock, CopyToRepo metadata_file_path, CopyToRepo albums_file_path,
            RunGit [''status'', ''--porcelain''],
            RunGit [''add'', ''metadata.csv'', ''albums.csv''],
            RunGit [''commit'', ''-m'', ''Update metadata from song-classifier''],
            RunGit [''push''], ReleaseLock])"
  by code_simp

text \<open>
  In general: whenever the batch is interrupted, the command ends in the very state the
  interruption left, whatever was persisted before.
\<close>

lemma interrupt_never_pushes:
  assumes "process_files c files path (\<not> no_skip_processed a) (\<not> no_skip_in_metadata a)
             (args_dry_run a) (snd (pull_if (\<not> no_sync a) cfg env s)) = (Inl KeyboardInterrupt, s2)"
    and "cmd_process a api_key_valid path_valid cfg env c path files s = (SysExit 130, s')"
  shows "s' = s2"
  using assms
  by (auto simp: cmd_process_def push_if_def Let_def split: if_splits prod.splits option.splits)

end
